theory Spec2Isabelle
  imports Complex_Main "HOL-Library.Sublist"
begin

section \<open>Strings\<close>

text \<open>
  A Python \<open>str\<close> is a sequence of Unicode code points; a code point is a natural
  number. \<open>u\<close> turns an ASCII literal into such a sequence; code points beyond ASCII are
  written as numbers (U+0103 is 259, U+0219 is 537).
\<close>

type_synonym ustring = "nat list"

definition u :: "string \<Rightarrow> ustring" where
  "u s = map of_char s"

text \<open>
  \<open>str.isspace\<close> on one code point: the 29 code points Python treats as whitespace.
  \<open>str.strip()\<close> removes them from both ends.
\<close>

definition isspace :: "nat \<Rightarrow> bool" where
  "isspace c \<longleftrightarrow>
     (9 \<le> c \<and> c \<le> 13) \<or> (28 \<le> c \<and> c \<le> 32) \<or> c = 133 \<or> c = 160 \<or> c = 5760 \<or>
     (8192 \<le> c \<and> c \<le> 8202) \<or> c = 8232 \<or> c = 8233 \<or> c = 8239 \<or> c = 8287 \<or> c = 12288"

definition strip :: "ustring \<Rightarrow> ustring" where
  "strip s = rev (dropWhile isspace (rev (dropWhile isspace s)))"

text \<open>\<open>keyword in name\<close> on two strings: \<open>keyword\<close> occurs in \<open>name\<close> as a contiguous run.\<close>

fun contains :: "ustring \<Rightarrow> ustring \<Rightarrow> bool" where
  "contains keyword [] = (keyword = [])"
| "contains keyword (c # cs) = (prefix keyword (c # cs) \<or> contains keyword cs)"

text \<open>\<open>str(n)\<close> for an integer: decimal digits, with a minus sign below zero.\<close>

fun digits :: "nat \<Rightarrow> ustring" where
  "digits n = (if n < 10 then [48 + n] else digits (n div 10) @ [48 + n mod 10])"

definition str_int :: "int \<Rightarrow> ustring" where
  "str_int i = (if i < 0 then 45 # digits (nat (- i)) else digits (nat i))"

text \<open>
  \<open>str.lower\<close> belongs to Python, not to the program, and its table covers all of Unicode.
  The functions below take it as the parameter \<open>lower\<close>, so every theorem that
  quantifies over \<open>lower\<close> holds for Python's. \<open>lower_ro\<close> is \<open>str.lower\<close> on
  strings made of Basic Latin and the Romanian letters (U+0102, U+00C2, U+00CE, U+0218,
  U+021A and their older cedilla forms U+015E, U+0162); it serves the concrete examples.
\<close>

definition lower_cp :: "nat \<Rightarrow> nat" where
  "lower_cp c =
     (if 65 \<le> c \<and> c \<le> 90 then c + 32
      else if c = 194 \<or> c = 206 then c + 32
      else if c = 258 \<or> c = 350 \<or> c = 354 \<or> c = 536 \<or> c = 538 then c + 1
      else c)"

definition lower_ro :: "ustring \<Rightarrow> ustring" where
  "lower_ro s = map lower_cp s"

section \<open>The data of \<open>script.py\<close>\<close>

text \<open>
  One element of the Overpass answer: a JSON object with \<open>type\<close> (a string), \<open>id\<close>
  (an integer), and optionally \<open>tags\<close> (strings to strings), \<open>lat\<close>, \<open>lon\<close>
  and \<open>center\<close> (an object with optional \<open>lat\<close> and \<open>lon\<close>). The program reads
  \<open>type\<close> and \<open>id\<close> by subscript, which raises \<open>KeyError\<close> on a missing key, and
  everything else through \<open>get\<close> or an \<open>in\<close> test; so every member is optional here and
  the missing \<open>type\<close> or \<open>id\<close> is an error value. Coordinates are only copied, never
  computed with; a coordinate is the number it denotes.
\<close>

record center =
  c_lat :: "real option"
  c_lon :: "real option"

record element =
  e_type :: "ustring option"
  e_id :: "int option"
  e_tags :: "(ustring \<rightharpoonup> ustring) option"
  e_lat :: "real option"
  e_lon :: "real option"
  e_center :: "center option"

text \<open>The parsed answer: only its \<open>elements\<close> member is read.\<close>

record osm_data =
  elements :: "element list option"

text \<open>The dictionary built for each relevant element, with its thirteen keys.\<close>

record supplier =
  s_id :: int
  s_type :: ustring
  s_name :: ustring
  s_address :: ustring
  s_city :: ustring
  s_postcode :: ustring
  s_shop :: ustring
  s_craft :: ustring
  s_description :: ustring
  s_phone :: ustring
  s_website :: ustring
  s_latitude :: "real option"
  s_longitude :: "real option"

text \<open>
  The exceptions that can leave the functions: \<open>KeyError\<close> from a subscript, and the
  \<open>ValueError\<close> of \<open>csv.DictWriter\<close> for a dictionary with a key outside the field names.
\<close>

datatype error = KeyError ustring | ValueError

section \<open>\<open>filter_and_process_data\<close>\<close>

text \<open>\<open>d.get(k, default)\<close>.\<close>

definition dict_get :: "('k \<rightharpoonup> 'v) \<Rightarrow> 'k \<Rightarrow> 'v \<Rightarrow> 'v" where
  "dict_get d k dflt = (case d k of None \<Rightarrow> dflt | Some v \<Rightarrow> v)"

text \<open>\<open>element.get('tags', {})\<close>.\<close>

definition tags_of :: "element \<Rightarrow> (ustring \<rightharpoonup> ustring)" where
  "tags_of element = (case e_tags element of None \<Rightarrow> Map.empty | Some tags \<Rightarrow> tags)"

definition shoe_material_keywords :: "ustring list" where
  "shoe_material_keywords =
     [u ''cizm'' @ [259] @ u ''rie'', u ''cizmar'', u ''pantof'', u ''shoe'', u ''footwear'',
      u ''piele'', u ''leather'', u ''material'', u ''skin'', u ''textil'',
      u ''depozit'', u ''warehouse'', u ''wholesale'', u ''en-gros'', u ''angro'',
      u ''nelucrat'' @ [259], u ''raw'', u ''brut'', u ''provizie'', u ''supply'']"

text \<open>\<open>f"{element['type']}_{element['id']}"\<close>, once both values are there.\<close>

definition element_id :: "ustring \<Rightarrow> int \<Rightarrow> ustring" where
  "element_id ty ident = ty @ u ''_'' @ str_int ident"

text \<open>The value of the variable \<open>is_relevant\<close> after the two checks of the loop body.\<close>

definition is_relevant :: "(ustring \<Rightarrow> ustring) \<Rightarrow> (ustring \<rightharpoonup> ustring) \<Rightarrow> bool" where
  "is_relevant lower tags =
     (let name = lower (dict_get tags (u ''name'') []);
          shop_type = lower (dict_get tags (u ''shop'') []);
          craft_type = lower (dict_get tags (u ''craft'') []);
          relevant = False;
          relevant = (if shop_type \<in> set [u ''wholesale'', u ''trade'', u ''industrial''] then True
                      else if craft_type = u ''shoemaker'' then True
                      else relevant);
          name_check = list_ex (\<lambda>keyword. contains keyword name) shoe_material_keywords;
          relevant = (if name_check then True else relevant)
      in relevant)"

text \<open>The pair \<open>lat, lon\<close> of the loop body.\<close>

definition coordinates :: "ustring \<Rightarrow> element \<Rightarrow> real option \<times> real option" where
  "coordinates ty element =
     (if ty = u ''node'' then (e_lat element, e_lon element)
      else if ty = u ''way'' \<and> e_center element \<noteq> None then
        (case e_center element of
           Some c \<Rightarrow> (c_lat c, c_lon c)
         | None \<Rightarrow> (None, None))
      else (None, None))"

text \<open>The dictionary literal \<open>supplier = {...}\<close>.\<close>

definition make_supplier :: "ustring \<Rightarrow> int \<Rightarrow> (ustring \<rightharpoonup> ustring) \<Rightarrow> element \<Rightarrow> supplier" where
  "make_supplier ty ident tags element =
     (let (lat, lon) = coordinates ty element in
      \<lparr> s_id = ident,
        s_type = ty,
        s_name = dict_get tags (u ''name'') (u ''N/A''),
        s_address = strip (dict_get tags (u ''addr:street'') [] @ u '' '' @
                           dict_get tags (u ''addr:housenumber'') []),
        s_city = dict_get tags (u ''addr:city'') (u ''Bucure'' @ [537] @ u ''ti''),
        s_postcode = dict_get tags (u ''addr:postcode'') [],
        s_shop = dict_get tags (u ''shop'') [],
        s_craft = dict_get tags (u ''craft'') [],
        s_description = dict_get tags (u ''description'') [],
        s_phone = dict_get tags (u ''phone'') [],
        s_website = dict_get tags (u ''website'') [],
        s_latitude = lat,
        s_longitude = lon \<rparr>)"

text \<open>
  The \<open>for\<close> loop, with its two variables \<open>seen_ids\<close> and \<open>suppliers\<close> passed along.
  A missing \<open>type\<close> or \<open>id\<close> ends the run with \<open>KeyError\<close>.
\<close>

fun process_elements ::
  "(ustring \<Rightarrow> ustring) \<Rightarrow> ustring set \<Rightarrow> supplier list \<Rightarrow> element list \<Rightarrow> error + supplier list" where
  "process_elements lower seen_ids suppliers [] = Inr suppliers"
| "process_elements lower seen_ids suppliers (element # rest) =
     (case e_type element of
        None \<Rightarrow> Inl (KeyError (u ''type''))
      | Some ty \<Rightarrow>
     (case e_id element of
        None \<Rightarrow> Inl (KeyError (u ''id''))
      | Some ident \<Rightarrow>
          if element_id ty ident \<in> seen_ids then
            process_elements lower seen_ids suppliers rest
          else
            let seen_ids = insert (element_id ty ident) seen_ids;
                tags = tags_of element
            in if is_relevant lower tags then
                 process_elements lower seen_ids
                   (suppliers @ [make_supplier ty ident tags element]) rest
               else process_elements lower seen_ids suppliers rest))"

text \<open>
  \<open>osm_data\<close> is \<open>None\<close> (the fetch failed) or the parsed object. An object with no
  members is falsy in Python and has no \<open>elements\<close> either, so both tests of the guard
  send it to the same \<open>return []\<close>.
\<close>

definition filter_and_process_data ::
  "(ustring \<Rightarrow> ustring) \<Rightarrow> osm_data option \<Rightarrow> error + supplier list" where
  "filter_and_process_data lower data =
     (case data of
        None \<Rightarrow> Inr []
      | Some d \<Rightarrow>
          (case elements d of
             None \<Rightarrow> Inr []
           | Some es \<Rightarrow> process_elements lower {} [] es))"

section \<open>The world outside: console, files, network\<close>

text \<open>
  \<open>print\<close> appends one entry to the console. A file is the list of rows handed to the
  csv writer, a row the list of its values; the text of a row (quoting, the form of
  numbers, line ends, UTF-8) is the work of the csv module. Opening a file for writing
  is taken to succeed.
\<close>

datatype cell = CInt int | CStr ustring | CFloat real | CNone

record world =
  files :: "ustring \<rightharpoonup> cell list list"
  console :: "ustring list"

definition print :: "world \<Rightarrow> ustring \<Rightarrow> world" where
  "print w s = w\<lparr>console := console w @ [s]\<rparr>"

text \<open>
  What the network gives back to \<open>requests.post\<close>: an exception with its message, or a
  response whose \<open>raise_for_status()\<close> and \<open>json()\<close> may raise in turn.
\<close>

record response =
  raise_for_status :: "ustring option"
  json :: "ustring + osm_data"

section \<open>\<open>fetch_osm_suppliers\<close>\<close>

definition fetch_osm_suppliers :: "ustring + response \<Rightarrow> world \<Rightarrow> osm_data option \<times> world" where
  "fetch_osm_suppliers post w =
     (let w = print w (u ''Querying OpenStreetMap for suppliers in Bucharest...'') in
      case post of
        Inl e \<Rightarrow> (None, print w (u ''Error fetching data: '' @ e))
      | Inr response \<Rightarrow>
          (case raise_for_status response of
             Some e \<Rightarrow> (None, print w (u ''Error fetching data: '' @ e))
           | None \<Rightarrow>
               (case json response of
                  Inl e \<Rightarrow> (None, print w (u ''Error fetching data: '' @ e))
                | Inr data \<Rightarrow> (Some data, w))))"

section \<open>\<open>save_to_csv\<close>\<close>

text \<open>The supplier dictionary as the csv writer sees it: keys and values.\<close>

definition coordinate_cell :: "real option \<Rightarrow> cell" where
  "coordinate_cell x = (case x of None \<Rightarrow> CNone | Some v \<Rightarrow> CFloat v)"

definition supplier_items :: "supplier \<Rightarrow> (ustring \<times> cell) list" where
  "supplier_items s =
     [(u ''id'', CInt (s_id s)),
      (u ''type'', CStr (s_type s)),
      (u ''name'', CStr (s_name s)),
      (u ''address'', CStr (s_address s)),
      (u ''city'', CStr (s_city s)),
      (u ''postcode'', CStr (s_postcode s)),
      (u ''shop'', CStr (s_shop s)),
      (u ''craft'', CStr (s_craft s)),
      (u ''description'', CStr (s_description s)),
      (u ''phone'', CStr (s_phone s)),
      (u ''website'', CStr (s_website s)),
      (u ''latitude'', coordinate_cell (s_latitude s)),
      (u ''longitude'', coordinate_cell (s_longitude s))]"

text \<open>
  \<open>DictWriter.writerow\<close>: a key outside \<open>fieldnames\<close> raises, a field name missing from
  the dictionary is written as the empty string, and the values go out in the order of
  \<open>fieldnames\<close>.
\<close>

definition dict_to_list :: "ustring list \<Rightarrow> (ustring \<times> cell) list \<Rightarrow> error + cell list" where
  "dict_to_list fieldnames rowdict =
     (if list_ex (\<lambda>k. k \<notin> set fieldnames) (map fst rowdict) then Inl ValueError
      else Inr (map (\<lambda>key. dict_get (map_of rowdict) key (CStr [])) fieldnames))"

fun writerows :: "ustring list \<Rightarrow> supplier list \<Rightarrow> error + cell list list" where
  "writerows fieldnames [] = Inr []"
| "writerows fieldnames (s # rest) =
     (case dict_to_list fieldnames (supplier_items s) of
        Inl err \<Rightarrow> Inl err
      | Inr row \<Rightarrow>
          (case writerows fieldnames rest of
             Inl err \<Rightarrow> Inl err
           | Inr rows \<Rightarrow> Inr (row # rows)))"

text \<open>
  The default of the parameter \<open>filename\<close> is taken when the caller passes none
  (\<open>None\<close> here).
\<close>

definition save_to_csv :: "world \<Rightarrow> supplier list \<Rightarrow> ustring option \<Rightarrow> error + world" where
  "save_to_csv w suppliers filename_arg =
     (let filename = (case filename_arg of
                        None \<Rightarrow> u ''bucharest_shoe_suppliers.csv''
                      | Some f \<Rightarrow> f)
      in if suppliers = [] then Inr (print w (u ''No data to save.''))
         else
           let fieldnames = [u ''id'', u ''type'', u ''name'', u ''address'', u ''city'', u ''postcode'',
                             u ''shop'', u ''craft'', u ''description'', u ''phone'', u ''website'',
                             u ''latitude'', u ''longitude'']
           in case writerows fieldnames suppliers of
                Inl err \<Rightarrow> Inl err
              | Inr rows \<Rightarrow>
                  Inr (print (w\<lparr>files := (files w)(filename \<mapsto> map CStr fieldnames # rows)\<rparr>)
                         ([10003] @ u '' Data for '' @ str_int (int (length suppliers)) @
                          u '' locations saved to '' @ [39] @ filename @ [39] @ u ''.'')))"

section \<open>\<open>display_results\<close> and \<open>main\<close>\<close>

definition display_supplier :: "world \<Rightarrow> nat \<Rightarrow> supplier \<Rightarrow> world" where
  "display_supplier w i supplier =
     (let w = print w (str_int (int i) @ u ''. '' @ s_name supplier);
          w = (if s_address supplier \<noteq> [] then
                 print w (u ''   '' @ [128205] @ u '' '' @ s_address supplier @ u '', '' @ s_city supplier)
               else w);
          w = (if s_shop supplier \<noteq> [] then
                 print w (u ''   '' @ [127978] @ u '' Shop type: '' @ s_shop supplier)
               else w);
          w = (if s_craft supplier \<noteq> [] then
                 print w (u ''   '' @ [128736] @ u '' Craft: '' @ s_craft supplier)
               else w);
          w = (if s_phone supplier \<noteq> [] then
                 print w (u ''   '' @ [128222] @ u '' '' @ s_phone supplier)
               else w)
      in print w [])"

fun display_loop :: "world \<Rightarrow> nat \<Rightarrow> supplier list \<Rightarrow> world" where
  "display_loop w i [] = w"
| "display_loop w i (supplier # rest) = display_loop (display_supplier w i supplier) (Suc i) rest"

definition display_results :: "world \<Rightarrow> supplier list \<Rightarrow> world" where
  "display_results w suppliers =
     (if suppliers = [] then
        print (print w ([10] @ u ''No potential suppliers found with the current query.''))
          (u ''Try broadening the search or checking other sources.'')
      else
        let w = print w ([10] @ u ''Found '' @ str_int (int (length suppliers)) @
                         u '' potential suppliers/warehouses:'' @ [10]);
            w = print w (replicate 60 61)
        in display_loop w 1 suppliers)"

definition main :: "(ustring \<Rightarrow> ustring) \<Rightarrow> ustring + response \<Rightarrow> world \<Rightarrow> error + world" where
  "main lower post w =
     (let w = print w (replicate 60 61);
          w = print w (u ''Searching for shoe material suppliers in Bucharest'');
          w = print w (u ''Source: OpenStreetMap (OSM) Database'');
          w = print w (replicate 60 61);
          (raw_data, w) = fetch_osm_suppliers post w
      in case filter_and_process_data lower raw_data of
           Inl err \<Rightarrow> Inl err
         | Inr suppliers_list \<Rightarrow>
             let w = display_results w suppliers_list
             in if suppliers_list \<noteq> [] then
                  (case save_to_csv w suppliers_list None of
                     Inl err \<Rightarrow> Inl err
                   | Inr w \<Rightarrow>
                       let w = print w ([10] @ [128161] @ u '' Tips for better results:'');
                           w = print w ([8226] @ u '' Visit the locations found; suppliers might not be fully listed online.'');
                           w = print w ([8226] @ u '' Search Romanian B2B platforms (e.g., Romania-Export.ro, Bizoo.ro).'');
                           w = print w ([8226] @ u '' Contact professional shoemaker associations in Romania.'')
                       in Inr w)
                else Inr w)"

section \<open>The specification's relevance rule and the example inputs\<close>

text \<open>
  The rule as the specification words it: the shop value is one of three, or the craft
  value is \<open>shoemaker\<close>, or the name contains one of twenty keywords. It is
  written here independently of \<open>is_relevant\<close> and compared with it below.
\<close>

definition spec_keywords :: "ustring set" where
  "spec_keywords =
     {u ''cizm'' @ [259] @ u ''rie'', u ''cizmar'', u ''pantof'', u ''shoe'', u ''footwear'',
      u ''piele'', u ''leather'', u ''material'', u ''skin'', u ''textil'',
      u ''depozit'', u ''warehouse'', u ''wholesale'', u ''en-gros'', u ''angro'',
      u ''nelucrat'' @ [259], u ''raw'', u ''brut'', u ''provizie'', u ''supply''}"

definition spec_relevant :: "(ustring \<Rightarrow> ustring) \<Rightarrow> (ustring \<rightharpoonup> ustring) \<Rightarrow> bool" where
  "spec_relevant lower tags \<longleftrightarrow>
     lower (dict_get tags (u ''shop'') []) \<in> {u ''wholesale'', u ''trade'', u ''industrial''} \<or>
     lower (dict_get tags (u ''craft'') []) = u ''shoemaker'' \<or>
     (\<exists>keyword \<in> spec_keywords. \<exists>p q. lower (dict_get tags (u ''name'') []) = p @ keyword @ q)"

text \<open>
  The two elements of the specification's end-to-end examples, and a relation that
  carries both its own coordinates and a center.
\<close>

definition way_7 :: element where
  "way_7 = \<lparr> e_type = Some (u ''way''), e_id = Some 7,
             e_tags = Some [u ''name'' \<mapsto> u ''Brut'' @ [259] @ u ''ria Central'' @ [259]],
             e_lat = None, e_lon = None,
             e_center = Some \<lparr> c_lat = Some 44.0, c_lon = Some 26.0 \<rparr> \<rparr>"

definition node_42 :: element where
  "node_42 = \<lparr> e_type = Some (u ''node''), e_id = Some 42,
             e_tags = Some [u ''name'' \<mapsto> u ''Depozit Piele SRL'', u ''shop'' \<mapsto> u ''wholesale''],
             e_lat = Some 44.43, e_lon = Some 26.10,
             e_center = None \<rparr>"

definition relation_9 :: element where
  "relation_9 = \<lparr> e_type = Some (u ''relation''), e_id = Some 9,
             e_tags = Some [u ''craft'' \<mapsto> u ''Shoemaker''],
             e_lat = Some 44.5, e_lon = Some 26.2,
             e_center = Some \<lparr> c_lat = Some 44.4, c_lon = Some 26.1 \<rparr> \<rparr>"

text \<open>The records the specification's examples expect, all thirteen fields.\<close>

definition record_42 :: supplier where
  "record_42 = \<lparr> s_id = 42, s_type = u ''node'', s_name = u ''Depozit Piele SRL'',
       s_address = [], s_city = u ''Bucure'' @ [537] @ u ''ti'', s_postcode = [],
       s_shop = u ''wholesale'', s_craft = [], s_description = [], s_phone = [],
       s_website = [], s_latitude = Some 44.43, s_longitude = Some 26.10 \<rparr>"

definition record_7 :: supplier where
  "record_7 = \<lparr> s_id = 7, s_type = u ''way'', s_name = u ''Brut'' @ [259] @ u ''ria Central'' @ [259],
       s_address = [], s_city = u ''Bucure'' @ [537] @ u ''ti'', s_postcode = [],
       s_shop = [], s_craft = [], s_description = [], s_phone = [],
       s_website = [], s_latitude = Some 44.0, s_longitude = Some 26.0 \<rparr>"

text \<open>
  The code points \<open>str.strip()\<close> removes, listed one by one, to state what trimming
  means without \<open>strip\<close>. And a node with every tag the program reads, its street and
  house number padded with blanks and its shop value capitalised, with the record it
  must give.
\<close>

definition python_whitespace :: "nat set" where
  "python_whitespace =
     {9, 10, 11, 12, 13, 28, 29, 30, 31, 32, 133, 160, 5760,
      8192, 8193, 8194, 8195, 8196, 8197, 8198, 8199, 8200, 8201, 8202,
      8232, 8233, 8239, 8287, 12288}"

definition node_12 :: element where
  "node_12 = \<lparr> e_type = Some (u ''node''), e_id = Some 12,
             e_tags = Some [u ''name'' \<mapsto> u ''Piele Fina SRL'',
                            u ''shop'' \<mapsto> u ''Wholesale'',
                            u ''craft'' \<mapsto> u ''Tanner'',
                            u ''addr:street'' \<mapsto> u ''  Calea Victoriei'',
                            u ''addr:housenumber'' \<mapsto> u ''12 '',
                            u ''addr:city'' \<mapsto> u ''Ploiesti'',
                            u ''addr:postcode'' \<mapsto> u ''100001'',
                            u ''description'' \<mapsto> u ''Leather in bulk'',
                            u ''phone'' \<mapsto> u ''+40 244 000 000'',
                            u ''website'' \<mapsto> u ''https://piele.example''],
             e_lat = Some 44.94, e_lon = Some 26.02,
             e_center = None \<rparr>"

definition record_12 :: supplier where
  "record_12 = \<lparr> s_id = 12, s_type = u ''node'', s_name = u ''Piele Fina SRL'',
       s_address = u ''Calea Victoriei 12'', s_city = u ''Ploiesti'', s_postcode = u ''100001'',
       s_shop = u ''Wholesale'', s_craft = u ''Tanner'', s_description = u ''Leather in bulk'',
       s_phone = u ''+40 244 000 000'', s_website = u ''https://piele.example'',
       s_latitude = Some 44.94, s_longitude = Some 26.02 \<rparr>"

text \<open>
  The record of an element without tags, should one be built: every field from the
  tags at its default. And a way that has nothing but its \<open>type\<close> and \<open>id\<close>.
\<close>

definition default_record :: "ustring \<Rightarrow> int \<Rightarrow> element \<Rightarrow> supplier" where
  "default_record ty i e =
     \<lparr> s_id = i, s_type = ty, s_name = u ''N/A'', s_address = [],
       s_city = u ''Bucure'' @ [537] @ u ''ti'', s_postcode = [], s_shop = [], s_craft = [],
       s_description = [], s_phone = [], s_website = [],
       s_latitude = fst (coordinates ty e), s_longitude = snd (coordinates ty e) \<rparr>"

definition bare_way :: element where
  "bare_way = \<lparr> e_type = Some (u ''way''), e_id = Some 1, e_tags = None,
       e_lat = None, e_lon = None, e_center = None \<rparr>"

text \<open>
  The header of the specification and the row of one record, written out field by
  field; a world with no files and nothing printed; and the four lines \<open>main\<close> prints
  before it fetches.
\<close>

definition csv_fieldnames :: "ustring list" where
  "csv_fieldnames =
     [u ''id'', u ''type'', u ''name'', u ''address'', u ''city'', u ''postcode'', u ''shop'',
      u ''craft'', u ''description'', u ''phone'', u ''website'', u ''latitude'', u ''longitude'']"

definition csv_row :: "supplier \<Rightarrow> cell list" where
  "csv_row s =
     [CInt (s_id s), CStr (s_type s), CStr (s_name s), CStr (s_address s), CStr (s_city s),
      CStr (s_postcode s), CStr (s_shop s), CStr (s_craft s), CStr (s_description s),
      CStr (s_phone s), CStr (s_website s),
      (case s_latitude s of None \<Rightarrow> CNone | Some x \<Rightarrow> CFloat x),
      (case s_longitude s of None \<Rightarrow> CNone | Some x \<Rightarrow> CFloat x)]"

definition empty_world :: world where
  "empty_world = \<lparr> files = Map.empty, console = [] \<rparr>"

definition banner :: "world \<Rightarrow> world" where
  "banner w =
     print (print (print (print w (replicate 60 61))
       (u ''Searching for shoe material suppliers in Bucharest''))
       (u ''Source: OpenStreetMap (OSM) Database'')) (replicate 60 61)"

section \<open>Strings and the relevance rule\<close>

lemma contains_iff: "contains k s \<longleftrightarrow> (\<exists>p q. s = p @ k @ q)"
proof (induction s)
  case Nil
  show ?case by auto
next
  case (Cons c cs)
  have "(\<exists>p q. c # cs = p @ k @ q) \<longleftrightarrow> sublist k (c # cs)"
    by (simp add: sublist_def)
  also have "\<dots> \<longleftrightarrow> prefix k (c # cs) \<or> sublist k cs"
    by (rule sublist_Cons_right)
  also have "\<dots> \<longleftrightarrow> prefix k (c # cs) \<or> contains k cs"
    using Cons.IH by (simp add: sublist_def)
  finally show ?case by simp
qed

lemma set_keywords: "set shoe_material_keywords = spec_keywords"
  by (simp add: shoe_material_keywords_def spec_keywords_def)

lemma is_relevant_spec: "is_relevant lower tags = spec_relevant lower tags"
  unfolding is_relevant_def spec_relevant_def Let_def list_ex_iff set_keywords contains_iff
  by auto

lemma step_fresh:
  assumes "e_type e = Some ty" "e_id e = Some i" "element_id ty i \<notin> seen"
  shows "process_elements lower seen acc (e # rest) =
         process_elements lower (insert (element_id ty i) seen)
           (if is_relevant lower (tags_of e) then acc @ [make_supplier ty i (tags_of e) e] else acc) rest"
  using assms by (simp add: Let_def)

lemma step_seen:
  assumes "e_type e = Some ty" "e_id e = Some i" "element_id ty i \<in> seen"
  shows "process_elements lower seen acc (e # rest) = process_elements lower seen acc rest"
  using assms by simp

lemma supplier_identity [simp]:
  "s_type (make_supplier ty i tags e) = ty" "s_id (make_supplier ty i tags e) = i"
  by (simp_all add: make_supplier_def split: prod.splits)

text \<open>
  C1. An element is marked relevant exactly when its lowercased \<open>shop\<close> value is one of
  wholesale, trade, industrial, or its lowercased \<open>craft\<close> value is shoemaker, or its
  lowercased name contains one of the twenty keywords. When the loop reaches an element
  it has not seen, it appends that element's record if the rule holds and appends nothing
  otherwise.
\<close>

theorem C1_relevance_rule:
  "(is_relevant lower tags \<longleftrightarrow> spec_relevant lower tags) \<and>
   (e_type e = Some ty \<and> e_id e = Some i \<and> element_id ty i \<notin> seen \<longrightarrow>
      process_elements lower seen acc (e # rest) =
      process_elements lower (insert (element_id ty i) seen)
        (if spec_relevant lower (tags_of e) then acc @ [make_supplier ty i (tags_of e) e] else acc)
        rest)"
  using step_fresh [of e ty i seen lower acc rest] by (simp add: is_relevant_spec)

theorem C1_relevance_rule_witness:
  "e_type node_42 = Some (u ''node'') \<and> e_id node_42 = Some 42 \<and>
   element_id (u ''node'') 42 \<notin> {} \<and>
   spec_relevant lower_ro (tags_of node_42) \<and>
   process_elements lower_ro {} [] [node_42] =
     Inr [make_supplier (u ''node'') 42 (tags_of node_42) node_42]"
  using C1_relevance_rule [where lower = lower_ro and e = node_42 and ty = "u ''node''"
      and i = 42 and seen = "{}" and acc = "[]" and rest = "[]"]
  by (simp add: node_42_def spec_relevant_def tags_of_def dict_get_def lower_ro_def lower_cp_def u_def Let_def)

section \<open>Deduplication\<close>

lemma skip_later:
  assumes "e_type e' = Some ty" "e_id e' = Some i" "element_id ty i \<in> seen"
  shows "process_elements lower seen acc (ys @ e' # zs) = process_elements lower seen acc (ys @ zs)"
  using assms(3)
proof (induction ys arbitrary: seen acc)
  case Nil
  then show ?case using assms(1,2) by simp
next
  case (Cons y ys)
  then show ?case by (simp add: Let_def split: option.splits)
qed

lemma dedup_general:
  assumes "e_type e' = e_type e" "e_id e' = e_id e"
  shows "process_elements lower seen acc (xs @ e # ys @ e' # zs) =
         process_elements lower seen acc (xs @ e # ys @ zs)"
proof (induction xs arbitrary: seen acc)
  case Nil
  show ?case
  proof (cases "e_type e")
    case None
    then show ?thesis by simp
  next
    case (Some ty)
    note ty = this
    show ?thesis
    proof (cases "e_id e")
      case None
      then show ?thesis using ty by simp
    next
      case (Some i)
      have e': "e_type e' = Some ty" "e_id e' = Some i"
        using assms ty Some by simp_all
      show ?thesis
        using ty Some skip_later [OF e', of _ lower]
        by (simp add: Let_def)
    qed
  qed
next
  case (Cons x xs)
  then show ?case by (simp add: Let_def split: option.splits)
qed

lemma process_keys:
  assumes "process_elements lower seen acc es = Inr out"
    and "distinct (map (\<lambda>r. element_id (s_type r) (s_id r)) acc)"
    and "\<forall>r \<in> set acc. element_id (s_type r) (s_id r) \<in> seen"
  shows "distinct (map (\<lambda>r. element_id (s_type r) (s_id r)) out)"
  using assms
proof (induction es arbitrary: seen acc)
  case Nil
  then show ?case by simp
next
  case (Cons e es)
  from Cons.prems(1) obtain ty i where ti: "e_type e = Some ty" "e_id e = Some i"
    by (auto split: option.splits)
  show ?case
  proof (cases "element_id ty i \<in> seen")
    case True
    with Cons ti show ?thesis by simp
  next
    case False
    show ?thesis
    proof (cases "is_relevant lower (tags_of e)")
      case True
      let ?r = "make_supplier ty i (tags_of e) e"
      have run: "process_elements lower (insert (element_id ty i) seen) (acc @ [?r]) es = Inr out"
        using Cons.prems(1) ti False True by (simp add: Let_def)
      have d: "distinct (map (\<lambda>r. element_id (s_type r) (s_id r)) (acc @ [?r]))"
        using Cons.prems(2,3) False by auto
      have s: "\<forall>r \<in> set (acc @ [?r]). element_id (s_type r) (s_id r) \<in> insert (element_id ty i) seen"
        using Cons.prems(3) by auto
      from Cons.IH [OF run d s] show ?thesis .
    next
      case irrelevant: False
      have run: "process_elements lower (insert (element_id ty i) seen) acc es = Inr out"
        using Cons.prems(1) ti False irrelevant by (simp add: Let_def)
      have s: "\<forall>r \<in> set acc. element_id (s_type r) (s_id r) \<in> insert (element_id ty i) seen"
        using Cons.prems(3) by auto
      from Cons.IH [OF run Cons.prems(2) s] show ?thesis .
    qed
  qed
qed

lemma distinct_pairs:
  assumes "distinct (map (\<lambda>r. element_id (s_type r) (s_id r)) out)"
  shows "distinct (map (\<lambda>r. (s_type r, s_id r)) out)"
proof -
  have "map (\<lambda>r. element_id (s_type r) (s_id r)) out =
        map (\<lambda>(ty, i). element_id ty i) (map (\<lambda>r. (s_type r, s_id r)) out)"
    by simp
  with assms show ?thesis by (metis distinct_map)
qed

text \<open>
  C2. An element whose \<open>type\<close> and \<open>id\<close> repeat those of an earlier element is
  skipped: the result is the same as if the later element were not in the input. And no
  two records of a result share their \<open>type\<close> and \<open>id\<close>.
\<close>

theorem C2_first_occurrence_wins:
  "(e_type e' = e_type e \<and> e_id e' = e_id e \<longrightarrow>
      filter_and_process_data lower (Some \<lparr>elements = Some (xs @ e # ys @ e' # zs)\<rparr>) =
      filter_and_process_data lower (Some \<lparr>elements = Some (xs @ e # ys @ zs)\<rparr>)) \<and>
   (filter_and_process_data lower (Some \<lparr>elements = Some es\<rparr>) = Inr out \<longrightarrow>
      distinct (map (\<lambda>r. (s_type r, s_id r)) out))"
proof (intro conjI impI)
  assume "e_type e' = e_type e \<and> e_id e' = e_id e"
  then show "filter_and_process_data lower (Some \<lparr>elements = Some (xs @ e # ys @ e' # zs)\<rparr>) =
      filter_and_process_data lower (Some \<lparr>elements = Some (xs @ e # ys @ zs)\<rparr>)"
    by (simp add: filter_and_process_data_def dedup_general)
next
  assume "filter_and_process_data lower (Some \<lparr>elements = Some es\<rparr>) = Inr out"
  then have "process_elements lower {} [] es = Inr out"
    by (simp add: filter_and_process_data_def)
  then have "distinct (map (\<lambda>r. element_id (s_type r) (s_id r)) out)"
    by (rule process_keys) simp_all
  then show "distinct (map (\<lambda>r. (s_type r, s_id r)) out)"
    by (rule distinct_pairs)
qed

theorem C2_first_occurrence_wins_witness:
  "e_type (node_42\<lparr>e_tags := None\<rparr>) = e_type node_42 \<and>
   e_id (node_42\<lparr>e_tags := None\<rparr>) = e_id node_42 \<and>
   filter_and_process_data lower_ro
     (Some \<lparr>elements = Some [node_42, way_7, node_42\<lparr>e_tags := None\<rparr>]\<rparr>) =
   filter_and_process_data lower_ro (Some \<lparr>elements = Some [node_42, way_7]\<rparr>) \<and>
   filter_and_process_data lower_ro (Some \<lparr>elements = Some [node_42, way_7]\<rparr>) =
     Inr [make_supplier (u ''node'') 42 (tags_of node_42) node_42,
          make_supplier (u ''way'') 7 (tags_of way_7) way_7] \<and>
   distinct (map (\<lambda>r. (s_type r, s_id r))
     [make_supplier (u ''node'') 42 (tags_of node_42) node_42,
      make_supplier (u ''way'') 7 (tags_of way_7) way_7])"
proof -
  have run: "filter_and_process_data lower_ro (Some \<lparr>elements = Some [node_42, way_7]\<rparr>) =
     Inr [make_supplier (u ''node'') 42 (tags_of node_42) node_42,
          make_supplier (u ''way'') 7 (tags_of way_7) way_7]"
    by (simp add: filter_and_process_data_def node_42_def way_7_def is_relevant_def
          shoe_material_keywords_def element_id_def str_int_def tags_of_def dict_get_def
          lower_ro_def lower_cp_def u_def Let_def)
  show ?thesis
    using run
      C2_first_occurrence_wins [where lower = lower_ro and e = node_42
        and e' = "node_42\<lparr>e_tags := None\<rparr>" and xs = "[]" and ys = "[way_7]" and zs = "[]"
        and es = "[node_42, way_7]"
        and out = "[make_supplier (u ''node'') 42 (tags_of node_42) node_42,
                    make_supplier (u ''way'') 7 (tags_of way_7) way_7]"]
    by simp
qed

section \<open>Coordinates\<close>

lemma way_neq_node: "u ''way'' \<noteq> u ''node''"
  by (simp add: u_def)

lemma supplier_lat_lon:
  "s_latitude (make_supplier ty i tags e) = fst (coordinates ty e)"
  "s_longitude (make_supplier ty i tags e) = snd (coordinates ty e)"
  by (simp_all add: make_supplier_def split: prod.splits)

lemma way_7_relevant_ro: "is_relevant lower_ro (tags_of way_7)"
  by (simp add: way_7_def is_relevant_def shoe_material_keywords_def tags_of_def dict_get_def
        lower_ro_def lower_cp_def u_def Let_def)

text \<open>
  C3. When the loop appends the record of a relevant element, the record's latitude and
  longitude are the element's own \<open>lat\<close> and \<open>lon\<close> if its type is \<open>node\<close>, those
  of its \<open>center\<close> if its type is \<open>way\<close> and it has a center, and both null
  otherwise; so a node without coordinates and a way without a center get null for both.
\<close>

theorem C3_coordinates:
  assumes "e_type e = Some ty" and "e_id e = Some i" and "element_id ty i \<notin> seen"
    and "is_relevant lower (tags_of e)"
  shows "let r = make_supplier ty i (tags_of e) e in
         process_elements lower seen acc (e # rest) =
           process_elements lower (insert (element_id ty i) seen) (acc @ [r]) rest \<and>
         (ty = u ''node'' \<longrightarrow> s_latitude r = e_lat e \<and> s_longitude r = e_lon e) \<and>
         (ty = u ''way'' \<longrightarrow>
            (\<forall>c. e_center e = Some c \<longrightarrow> s_latitude r = c_lat c \<and> s_longitude r = c_lon c)) \<and>
         (ty \<noteq> u ''node'' \<and> \<not> (ty = u ''way'' \<and> e_center e \<noteq> None) \<longrightarrow>
            s_latitude r = None \<and> s_longitude r = None) \<and>
         (ty = u ''node'' \<and> e_lat e = None \<and> e_lon e = None \<longrightarrow>
            s_latitude r = None \<and> s_longitude r = None) \<and>
         (ty = u ''way'' \<and> e_center e = None \<longrightarrow>
            s_latitude r = None \<and> s_longitude r = None)"
proof -
  let ?r = "make_supplier ty i (tags_of e) e"
  have step: "process_elements lower seen acc (e # rest) =
      process_elements lower (insert (element_id ty i) seen) (acc @ [?r]) rest"
    using step_fresh [OF assms(1-3)] assms(4) by simp
  note co = supplier_lat_lon
  have node: "ty = u ''node'' \<longrightarrow> s_latitude ?r = e_lat e \<and> s_longitude ?r = e_lon e"
    by (simp add: co coordinates_def)
  have way: "ty = u ''way'' \<longrightarrow>
      (\<forall>c. e_center e = Some c \<longrightarrow> s_latitude ?r = c_lat c \<and> s_longitude ?r = c_lon c)"
    by (simp add: co coordinates_def way_neq_node)
  have other: "ty \<noteq> u ''node'' \<and> \<not> (ty = u ''way'' \<and> e_center e \<noteq> None) \<longrightarrow>
      s_latitude ?r = None \<and> s_longitude ?r = None"
    by (auto simp add: co coordinates_def)
  have bare: "ty = u ''node'' \<and> e_lat e = None \<and> e_lon e = None \<longrightarrow>
      s_latitude ?r = None \<and> s_longitude ?r = None"
    by (simp add: co coordinates_def)
  have nocenter: "ty = u ''way'' \<and> e_center e = None \<longrightarrow>
      s_latitude ?r = None \<and> s_longitude ?r = None"
    by (simp add: co coordinates_def way_neq_node)
  show ?thesis
    unfolding Let_def using step node way other bare nocenter by blast
qed

theorem C3_coordinates_witness:
  "e_type way_7 = Some (u ''way'') \<and> e_id way_7 = Some 7 \<and> element_id (u ''way'') 7 \<notin> {} \<and>
   is_relevant lower_ro (tags_of way_7) \<and>
   e_center way_7 = Some \<lparr>c_lat = Some 44.0, c_lon = Some 26.0\<rparr> \<and>
   process_elements lower_ro {} [] [way_7] = Inr [make_supplier (u ''way'') 7 (tags_of way_7) way_7] \<and>
   s_latitude (make_supplier (u ''way'') 7 (tags_of way_7) way_7) = Some 44.0 \<and>
   s_longitude (make_supplier (u ''way'') 7 (tags_of way_7) way_7) = Some 26.0"
proof -
  have h: "e_type way_7 = Some (u ''way'')" "e_id way_7 = Some 7" "e_center way_7 = Some \<lparr>c_lat = Some 44.0, c_lon = Some 26.0\<rparr>"
    by (simp_all add: way_7_def)
  have f: "element_id (u ''way'') 7 \<notin> {}" by simp
  show ?thesis
    using C3_coordinates [OF h(1,2) f way_7_relevant_ro, of "[]" "[]"] h way_7_relevant_ro
    by (simp add: Let_def)
qed

lemma relation_9_relevant_ro: "is_relevant lower_ro (tags_of relation_9)"
  by (simp add: relation_9_def is_relevant_def shoe_material_keywords_def tags_of_def dict_get_def
        lower_ro_def lower_cp_def u_def Let_def)

text \<open>
  C10. A relevant element whose type is neither \<open>node\<close> nor \<open>way\<close> gets its record
  like any other, with null latitude and longitude, whatever coordinates or center
  it carries.
\<close>

theorem C10_other_kinds:
  assumes "e_type e = Some ty" and "e_id e = Some i" and "element_id ty i \<notin> seen"
    and "is_relevant lower (tags_of e)"
    and "ty \<noteq> u ''node''" and "ty \<noteq> u ''way''"
  shows "process_elements lower seen acc (e # rest) =
           process_elements lower (insert (element_id ty i) seen)
             (acc @ [make_supplier ty i (tags_of e) e]) rest \<and>
         s_latitude (make_supplier ty i (tags_of e) e) = None \<and>
         s_longitude (make_supplier ty i (tags_of e) e) = None"
proof -
  have "coordinates ty e = (None, None)"
    using assms(5,6) by (simp add: coordinates_def)
  then have "s_latitude (make_supplier ty i (tags_of e) e) = None"
    "s_longitude (make_supplier ty i (tags_of e) e) = None"
    by (simp_all add: supplier_lat_lon)
  then show ?thesis
    using step_fresh [OF assms(1-3)] assms(4) by simp
qed

theorem C10_other_kinds_witness:
  "e_type relation_9 = Some (u ''relation'') \<and> e_id relation_9 = Some 9 \<and>
   element_id (u ''relation'') 9 \<notin> {} \<and> is_relevant lower_ro (tags_of relation_9) \<and>
   u ''relation'' \<noteq> u ''node'' \<and> u ''relation'' \<noteq> u ''way'' \<and>
   e_lat relation_9 = Some 44.5 \<and> e_center relation_9 \<noteq> None \<and>
   process_elements lower_ro {} [] [relation_9] =
     Inr [make_supplier (u ''relation'') 9 (tags_of relation_9) relation_9] \<and>
   s_latitude (make_supplier (u ''relation'') 9 (tags_of relation_9) relation_9) = None \<and>
   s_longitude (make_supplier (u ''relation'') 9 (tags_of relation_9) relation_9) = None"
proof -
  have h: "e_type relation_9 = Some (u ''relation'')" "e_id relation_9 = Some 9"
    "e_lat relation_9 = Some 44.5" "e_center relation_9 \<noteq> None"
    by (simp_all add: relation_9_def)
  have f: "element_id (u ''relation'') 9 \<notin> {}" by simp
  have n: "u ''relation'' \<noteq> u ''node''" "u ''relation'' \<noteq> u ''way''"
    by (simp_all add: u_def)
  show ?thesis
    using C10_other_kinds [OF h(1,2) f relation_9_relevant_ro n, of "[]" "[]"]
      h relation_9_relevant_ro n
    by simp
qed

section \<open>The fields of a record\<close>

lemma supplier_42: "make_supplier (u ''node'') 42 (tags_of node_42) node_42 = record_42"
  by (simp add: make_supplier_def coordinates_def node_42_def record_42_def tags_of_def
        dict_get_def strip_def isspace_def u_def)

lemma supplier_7: "make_supplier (u ''way'') 7 (tags_of way_7) way_7 = record_7"
  by (simp add: make_supplier_def coordinates_def way_7_def record_7_def tags_of_def
        dict_get_def strip_def isspace_def u_def)

lemma supplier_fields:
  "s_name (make_supplier ty i tags e) = dict_get tags (u ''name'') (u ''N/A'')"
  "s_address (make_supplier ty i tags e) =
     strip (dict_get tags (u ''addr:street'') [] @ u '' '' @ dict_get tags (u ''addr:housenumber'') [])"
  "s_city (make_supplier ty i tags e) = dict_get tags (u ''addr:city'') (u ''Bucure'' @ [537] @ u ''ti'')"
  "s_postcode (make_supplier ty i tags e) = dict_get tags (u ''addr:postcode'') []"
  "s_shop (make_supplier ty i tags e) = dict_get tags (u ''shop'') []"
  "s_craft (make_supplier ty i tags e) = dict_get tags (u ''craft'') []"
  "s_description (make_supplier ty i tags e) = dict_get tags (u ''description'') []"
  "s_phone (make_supplier ty i tags e) = dict_get tags (u ''phone'') []"
  "s_website (make_supplier ty i tags e) = dict_get tags (u ''website'') []"
  by (simp_all add: make_supplier_def split: prod.splits)

lemma node_42_relevant:
  assumes "lower (u ''wholesale'') = u ''wholesale''"
  shows "is_relevant lower (tags_of node_42)"
proof -
  have "dict_get (tags_of node_42) (u ''shop'') [] = u ''wholesale''"
    by (simp add: node_42_def tags_of_def dict_get_def u_def)
  then show ?thesis
    using assms by (simp add: is_relevant_spec spec_relevant_def)
qed

lemma lower_ro_wholesale: "lower_ro (u ''wholesale'') = u ''wholesale''"
  by (simp add: lower_ro_def lower_cp_def u_def)

lemma isspace_iff: "isspace c \<longleftrightarrow> c \<in> python_whitespace"
  unfolding isspace_def python_whitespace_def by (simp only: insert_iff empty_iff) arith

lemma strip_split:
  "dropWhile isspace s = strip s @ rev (takeWhile isspace (rev (dropWhile isspace s)))"
proof -
  let ?m = "dropWhile isspace s"
  have "?m = rev (takeWhile isspace (rev ?m) @ dropWhile isspace (rev ?m))"
    by (simp only: takeWhile_dropWhile_id rev_rev_ident)
  also have "\<dots> = rev (dropWhile isspace (rev ?m)) @ rev (takeWhile isspace (rev ?m))"
    by (simp only: rev_append)
  finally show ?thesis
    by (simp only: strip_def)
qed

lemma strip_trims:
  "\<exists>pre post. s = pre @ strip s @ post \<and>
     set pre \<subseteq> python_whitespace \<and> set post \<subseteq> python_whitespace"
proof -
  let ?m = "dropWhile isspace s"
  let ?pre = "takeWhile isspace s"
  let ?post = "rev (takeWhile isspace (rev ?m))"
  have "s = ?pre @ ?m"
    by simp
  then have "s = ?pre @ strip s @ ?post"
    using strip_split [of s] by simp
  moreover have "set ?pre \<subseteq> python_whitespace"
    using set_takeWhileD [of _ isspace s] by (auto simp add: isspace_iff)
  moreover have "set ?post \<subseteq> python_whitespace"
    using set_takeWhileD [of _ isspace "rev ?m"] by (auto simp add: isspace_iff)
  ultimately show ?thesis by blast
qed

lemma strip_ends:
  assumes "strip s \<noteq> []"
  shows "hd (strip s) \<notin> python_whitespace \<and> last (strip s) \<notin> python_whitespace"
proof -
  let ?m = "dropWhile isspace s"
  let ?d = "dropWhile isspace (rev ?m)"
  have sd: "strip s = rev ?d"
    by (simp only: strip_def)
  have d: "?d \<noteq> []"
    using assms unfolding sd by (simp only: rev_is_Nil_conv not_False_eq_True)
  have "\<not> isspace (hd ?d)"
    using d by (rule hd_dropWhile)
  moreover have "last (rev ?d) = hd ?d"
    using d by (simp only: last_rev)
  ultimately have l: "last (strip s) \<notin> python_whitespace"
    by (simp only: sd isspace_iff not_False_eq_True)
  have m: "?m \<noteq> []"
  proof
    assume e: "?m = []"
    have "?d = []" unfolding e by simp
    with d show False by (rule notE)
  qed
  have hm: "\<not> isspace (hd ?m)"
    using m by (rule hd_dropWhile)
  have "hd ?m = hd (strip s @ rev (takeWhile isspace (rev ?m)))"
    using strip_split [of s] by (rule arg_cong)
  also have "\<dots> = hd (strip s)"
    using assms by (rule hd_append2)
  finally have "hd (strip s) \<notin> python_whitespace"
    using hm by (simp only: isspace_iff not_False_eq_True)
  with l show ?thesis by (rule conjI [rotated])
qed

lemma supplier_12: "make_supplier (u ''node'') 12 (tags_of node_12) node_12 = record_12"
  by (simp add: make_supplier_def coordinates_def node_12_def record_12_def tags_of_def
        dict_get_def strip_def isspace_def u_def)

lemma node_12_relevant:
  assumes "lower (u ''Wholesale'') = u ''wholesale''"
  shows "is_relevant lower (tags_of node_12)"
proof -
  have "dict_get (tags_of node_12) (u ''shop'') [] = u ''Wholesale''"
    by (simp add: node_12_def tags_of_def dict_get_def u_def)
  then show ?thesis
    using assms by (simp add: is_relevant_spec spec_relevant_def)
qed

lemma lower_ro_Wholesale: "lower_ro (u ''Wholesale'') = u ''wholesale''"
  by (simp add: lower_ro_def lower_cp_def u_def)

text \<open>
  C4. The record appended for a relevant element carries the element's \<open>id\<close> and
  \<open>type\<close>; its name is the \<open>name\<close> tag as written, or N/A without one; its city is
  the \<open>addr:city\<close> tag, or Bucuresti (spelt with U+0219) without one; its postcode,
  description, phone and website are the tags, or empty; its shop and craft are the tags
  as written, whatever \<open>lower\<close> does to them. Its address is street, a space and house
  number, stripped: what is left of that string once a run of whitespace is cut from each
  end, so that the address, unless empty, neither starts nor ends with whitespace; it is
  empty when both tags are missing. The node 42 of the specification's example yields
  the record the specification states, for every \<open>lower\<close> that leaves the word wholesale
  as it is. And a node with every tag set, its street and house number padded with
  blanks and its shop written Wholesale, yields its tags as written and the address
  Calea Victoriei 12, for every \<open>lower\<close> that turns Wholesale into wholesale.
\<close>

theorem C4_field_mapping:
  "(e_type e = Some ty \<and> e_id e = Some i \<and> element_id ty i \<notin> seen \<and>
    is_relevant lower (tags_of e) \<longrightarrow>
      (let tags = tags_of e; r = make_supplier ty i tags e;
           joined = (case tags (u ''addr:street'') of None \<Rightarrow> [] | Some v \<Rightarrow> v) @ [32] @
                    (case tags (u ''addr:housenumber'') of None \<Rightarrow> [] | Some v \<Rightarrow> v)
       in
       process_elements lower seen acc (e # rest) =
         process_elements lower (insert (element_id ty i) seen) (acc @ [r]) rest \<and>
       s_id r = i \<and> s_type r = ty \<and>
       s_name r = (case tags (u ''name'') of None \<Rightarrow> u ''N/A'' | Some v \<Rightarrow> v) \<and>
       s_city r = (case tags (u ''addr:city'') of None \<Rightarrow> u ''Bucure'' @ [537] @ u ''ti'' | Some v \<Rightarrow> v) \<and>
       s_address r = strip joined \<and>
       (\<exists>pre post. joined = pre @ s_address r @ post \<and>
          set pre \<subseteq> python_whitespace \<and> set post \<subseteq> python_whitespace) \<and>
       (s_address r \<noteq> [] \<longrightarrow>
          hd (s_address r) \<notin> python_whitespace \<and> last (s_address r) \<notin> python_whitespace) \<and>
       (tags (u ''addr:street'') = None \<and> tags (u ''addr:housenumber'') = None \<longrightarrow>
          s_address r = []) \<and>
       s_postcode r = (case tags (u ''addr:postcode'') of None \<Rightarrow> [] | Some v \<Rightarrow> v) \<and>
       s_shop r = (case tags (u ''shop'') of None \<Rightarrow> [] | Some v \<Rightarrow> v) \<and>
       s_craft r = (case tags (u ''craft'') of None \<Rightarrow> [] | Some v \<Rightarrow> v) \<and>
       s_description r = (case tags (u ''description'') of None \<Rightarrow> [] | Some v \<Rightarrow> v) \<and>
       s_phone r = (case tags (u ''phone'') of None \<Rightarrow> [] | Some v \<Rightarrow> v) \<and>
       s_website r = (case tags (u ''website'') of None \<Rightarrow> [] | Some v \<Rightarrow> v))) \<and>
   (lower (u ''wholesale'') = u ''wholesale'' \<longrightarrow>
      filter_and_process_data lower (Some \<lparr>elements = Some [node_42]\<rparr>) = Inr [record_42]) \<and>
   (lower (u ''Wholesale'') = u ''wholesale'' \<longrightarrow>
      filter_and_process_data lower (Some \<lparr>elements = Some [node_12]\<rparr>) = Inr [record_12])"
proof (intro conjI impI)
  assume h: "e_type e = Some ty \<and> e_id e = Some i \<and> element_id ty i \<notin> seen \<and>
    is_relevant lower (tags_of e)"
  let ?tags = "tags_of e"
  let ?r = "make_supplier ty i ?tags e"
  let ?joined = "(case ?tags (u ''addr:street'') of None \<Rightarrow> [] | Some v \<Rightarrow> v) @ [32] @
                 (case ?tags (u ''addr:housenumber'') of None \<Rightarrow> [] | Some v \<Rightarrow> v)"
  have step: "process_elements lower seen acc (e # rest) =
      process_elements lower (insert (element_id ty i) seen) (acc @ [?r]) rest"
    using step_fresh [of e ty i seen lower acc rest] h by simp
  have sp: "u '' '' = [32]" by (simp add: u_def)
  have addr: "s_address ?r = strip ?joined"
    by (simp add: supplier_fields dict_get_def sp)
  have trims: "\<exists>pre post. ?joined = pre @ s_address ?r @ post \<and>
      set pre \<subseteq> python_whitespace \<and> set post \<subseteq> python_whitespace"
    unfolding addr by (rule strip_trims)
  have ends: "s_address ?r \<noteq> [] \<longrightarrow>
      hd (s_address ?r) \<notin> python_whitespace \<and> last (s_address ?r) \<notin> python_whitespace"
    unfolding addr using strip_ends by blast
  have none: "?tags (u ''addr:street'') = None \<and> ?tags (u ''addr:housenumber'') = None \<longrightarrow>
      s_address ?r = []"
    unfolding addr by (simp add: strip_def isspace_def)
  have rest: "s_id ?r = i" "s_type ?r = ty"
    "s_name ?r = (case ?tags (u ''name'') of None \<Rightarrow> u ''N/A'' | Some v \<Rightarrow> v)"
    "s_city ?r = (case ?tags (u ''addr:city'') of None \<Rightarrow> u ''Bucure'' @ [537] @ u ''ti'' | Some v \<Rightarrow> v)"
    "s_postcode ?r = (case ?tags (u ''addr:postcode'') of None \<Rightarrow> [] | Some v \<Rightarrow> v)"
    "s_shop ?r = (case ?tags (u ''shop'') of None \<Rightarrow> [] | Some v \<Rightarrow> v)"
    "s_craft ?r = (case ?tags (u ''craft'') of None \<Rightarrow> [] | Some v \<Rightarrow> v)"
    "s_description ?r = (case ?tags (u ''description'') of None \<Rightarrow> [] | Some v \<Rightarrow> v)"
    "s_phone ?r = (case ?tags (u ''phone'') of None \<Rightarrow> [] | Some v \<Rightarrow> v)"
    "s_website ?r = (case ?tags (u ''website'') of None \<Rightarrow> [] | Some v \<Rightarrow> v)"
    by (simp_all only: supplier_fields supplier_identity dict_get_def)
  show "let tags = tags_of e; r = make_supplier ty i tags e;
           joined = (case tags (u ''addr:street'') of None \<Rightarrow> [] | Some v \<Rightarrow> v) @ [32] @
                    (case tags (u ''addr:housenumber'') of None \<Rightarrow> [] | Some v \<Rightarrow> v)
       in
       process_elements lower seen acc (e # rest) =
         process_elements lower (insert (element_id ty i) seen) (acc @ [r]) rest \<and>
       s_id r = i \<and> s_type r = ty \<and>
       s_name r = (case tags (u ''name'') of None \<Rightarrow> u ''N/A'' | Some v \<Rightarrow> v) \<and>
       s_city r = (case tags (u ''addr:city'') of None \<Rightarrow> u ''Bucure'' @ [537] @ u ''ti'' | Some v \<Rightarrow> v) \<and>
       s_address r = strip joined \<and>
       (\<exists>pre post. joined = pre @ s_address r @ post \<and>
          set pre \<subseteq> python_whitespace \<and> set post \<subseteq> python_whitespace) \<and>
       (s_address r \<noteq> [] \<longrightarrow>
          hd (s_address r) \<notin> python_whitespace \<and> last (s_address r) \<notin> python_whitespace) \<and>
       (tags (u ''addr:street'') = None \<and> tags (u ''addr:housenumber'') = None \<longrightarrow>
          s_address r = []) \<and>
       s_postcode r = (case tags (u ''addr:postcode'') of None \<Rightarrow> [] | Some v \<Rightarrow> v) \<and>
       s_shop r = (case tags (u ''shop'') of None \<Rightarrow> [] | Some v \<Rightarrow> v) \<and>
       s_craft r = (case tags (u ''craft'') of None \<Rightarrow> [] | Some v \<Rightarrow> v) \<and>
       s_description r = (case tags (u ''description'') of None \<Rightarrow> [] | Some v \<Rightarrow> v) \<and>
       s_phone r = (case tags (u ''phone'') of None \<Rightarrow> [] | Some v \<Rightarrow> v) \<and>
       s_website r = (case tags (u ''website'') of None \<Rightarrow> [] | Some v \<Rightarrow> v)"
    unfolding Let_def
    by (intro conjI step addr trims ends none rest)
next
  assume lw: "lower (u ''wholesale'') = u ''wholesale''"
  have "process_elements lower {} [] [node_42] =
      process_elements lower (insert (element_id (u ''node'') 42) {})
        (if is_relevant lower (tags_of node_42)
         then [] @ [make_supplier (u ''node'') 42 (tags_of node_42) node_42] else []) []"
    by (rule step_fresh) (simp_all add: node_42_def)
  then show "filter_and_process_data lower (Some \<lparr>elements = Some [node_42]\<rparr>) = Inr [record_42]"
    using node_42_relevant [where lower = lower, OF lw] by (simp add: filter_and_process_data_def supplier_42)
next
  assume lw: "lower (u ''Wholesale'') = u ''wholesale''"
  have "process_elements lower {} [] [node_12] =
      process_elements lower (insert (element_id (u ''node'') 12) {})
        (if is_relevant lower (tags_of node_12)
         then [] @ [make_supplier (u ''node'') 12 (tags_of node_12) node_12] else []) []"
    by (rule step_fresh) (simp_all add: node_12_def)
  then show "filter_and_process_data lower (Some \<lparr>elements = Some [node_12]\<rparr>) = Inr [record_12]"
    using node_12_relevant [where lower = lower, OF lw] by (simp add: filter_and_process_data_def supplier_12)
qed

theorem C4_field_mapping_witness:
  "e_type node_12 = Some (u ''node'') \<and> e_id node_12 = Some 12 \<and>
   element_id (u ''node'') 12 \<notin> {} \<and> is_relevant lower_ro (tags_of node_12) \<and>
   lower_ro (u ''wholesale'') = u ''wholesale'' \<and>
   lower_ro (u ''Wholesale'') = u ''wholesale'' \<and>
   process_elements lower_ro {} [] [node_12] =
     Inr [make_supplier (u ''node'') 12 (tags_of node_12) node_12] \<and>
   s_address (make_supplier (u ''node'') 12 (tags_of node_12) node_12) =
     strip (u ''  Calea Victoriei'' @ [32] @ u ''12 '') \<and>
   s_address record_12 = u ''Calea Victoriei 12'' \<and>
   s_shop record_12 = u ''Wholesale'' \<and>
   filter_and_process_data lower_ro (Some \<lparr>elements = Some [node_12]\<rparr>) = Inr [record_12] \<and>
   filter_and_process_data lower_ro (Some \<lparr>elements = Some [node_42]\<rparr>) = Inr [record_42]"
proof -
  have h: "e_type node_12 = Some (u ''node'') \<and> e_id node_12 = Some 12 \<and>
      element_id (u ''node'') 12 \<notin> {} \<and> is_relevant lower_ro (tags_of node_12)"
    using node_12_relevant [where lower = lower_ro, OF lower_ro_Wholesale]
    by (simp add: node_12_def)
  have t: "tags_of node_12 (u ''addr:street'') = Some (u ''  Calea Victoriei'')"
    "tags_of node_12 (u ''addr:housenumber'') = Some (u ''12 '')"
    by (simp_all add: node_12_def tags_of_def u_def)
  note c = C4_field_mapping [where lower = lower_ro and e = node_12 and ty = "u ''node''"
        and i = 12 and seen = "{}" and acc = "[]" and rest = "[]"]
  note g = mp [OF c [THEN conjunct1] h, unfolded Let_def]
  have p: "process_elements lower_ro {} [] [node_12] =
     Inr [make_supplier (u ''node'') 12 (tags_of node_12) node_12]"
    using g [THEN conjunct1] by simp
  have a: "s_address (make_supplier (u ''node'') 12 (tags_of node_12) node_12) =
     strip (u ''  Calea Victoriei'' @ [32] @ u ''12 '')"
    using g [THEN conjunct2, THEN conjunct2, THEN conjunct2, THEN conjunct2, THEN conjunct2,
        THEN conjunct1]
    by (simp only: t option.case)
  have e42: "filter_and_process_data lower_ro (Some \<lparr>elements = Some [node_42]\<rparr>) = Inr [record_42]"
    by (rule mp [OF c [THEN conjunct2, THEN conjunct1] lower_ro_wholesale])
  have e12: "filter_and_process_data lower_ro (Some \<lparr>elements = Some [node_12]\<rparr>) = Inr [record_12]"
    by (rule mp [OF c [THEN conjunct2, THEN conjunct2] lower_ro_Wholesale])
  have r: "s_address record_12 = u ''Calea Victoriei 12''" "s_shop record_12 = u ''Wholesale''"
    by (simp_all add: record_12_def)
  from h lower_ro_wholesale lower_ro_Wholesale p a r e12 e42 show ?thesis
    by (intro conjI) simp_all
qed

text \<open>
  C5. The way 7 of the specification's example is relevant: once \<open>lower\<close> turns its
  name into the all-lowercase form the claim quotes, that form starts with the keyword
  \<open>brut\<close>, and the classifier returns the element's record.
\<close>

theorem C5_way_7_relevant:
  assumes "lower (u ''Brut'' @ [259] @ u ''ria Central'' @ [259]) =
           u ''brut'' @ [259] @ u ''ria central'' @ [259]"
  shows "u ''brut'' \<in> set shoe_material_keywords \<and>
         contains (u ''brut'') (lower (dict_get (tags_of way_7) (u ''name'') [])) \<and>
         is_relevant lower (tags_of way_7) \<and>
         filter_and_process_data lower (Some \<lparr>elements = Some [way_7]\<rparr>) = Inr [record_7]"
proof -
  have kw: "u ''brut'' \<in> set shoe_material_keywords"
    by (simp add: shoe_material_keywords_def)
  have name: "dict_get (tags_of way_7) (u ''name'') [] = u ''Brut'' @ [259] @ u ''ria Central'' @ [259]"
    by (simp add: way_7_def tags_of_def dict_get_def)
  have sub: "contains (u ''brut'') (lower (dict_get (tags_of way_7) (u ''name'') []))"
    unfolding name assms contains_iff by (rule exI [of _ "[]"]) simp
  have rel: "is_relevant lower (tags_of way_7)"
    using kw sub by (auto simp add: is_relevant_def Let_def list_ex_iff)
  have "process_elements lower {} [] [way_7] =
      process_elements lower (insert (element_id (u ''way'') 7) {})
        (if is_relevant lower (tags_of way_7)
         then [] @ [make_supplier (u ''way'') 7 (tags_of way_7) way_7] else []) []"
    by (rule step_fresh) (simp_all add: way_7_def)
  then have "filter_and_process_data lower (Some \<lparr>elements = Some [way_7]\<rparr>) = Inr [record_7]"
    using rel by (simp add: filter_and_process_data_def supplier_7)
  with kw sub rel show ?thesis by simp
qed

theorem C5_way_7_relevant_witness:
  "lower_ro (u ''Brut'' @ [259] @ u ''ria Central'' @ [259]) =
     u ''brut'' @ [259] @ u ''ria central'' @ [259] \<and>
   is_relevant lower_ro (tags_of way_7) \<and>
   filter_and_process_data lower_ro (Some \<lparr>elements = Some [way_7]\<rparr>) = Inr [record_7]"
proof -
  have l: "lower_ro (u ''Brut'' @ [259] @ u ''ria Central'' @ [259]) =
     u ''brut'' @ [259] @ u ''ria central'' @ [259]"
    by (simp add: lower_ro_def lower_cp_def u_def)
  show ?thesis
    using C5_way_7_relevant [where lower = lower_ro, OF l] l by simp
qed

section \<open>Totality\<close>

text \<open>
  The two subscripts are the only way the loop can fail: an element without \<open>type\<close>
  or without \<open>id\<close> ends the run.
\<close>

lemma missing_type_raises:
  "e_type e = None \<Longrightarrow> process_elements lower seen acc (e # rest) = Inl (KeyError (u ''type''))"
  by simp

lemma missing_id_raises:
  "e_type e = Some ty \<Longrightarrow> e_id e = None \<Longrightarrow>
   process_elements lower seen acc (e # rest) = Inl (KeyError (u ''id''))"
  by simp

lemma process_total:
  assumes "\<forall>e \<in> set es. e_type e \<noteq> None \<and> e_id e \<noteq> None"
  shows "\<exists>out. process_elements lower seen acc es = Inr out"
  using assms
proof (induction es arbitrary: seen acc)
  case Nil
  show ?case by simp
next
  case (Cons e es)
  then obtain ty i where "e_type e = Some ty" "e_id e = Some i" by auto
  moreover have "\<And>seen acc. \<exists>out. process_elements lower seen acc es = Inr out"
    using Cons by simp
  ultimately show ?case by (simp add: Let_def)
qed

lemma process_sound:
  assumes "process_elements lower seen acc es = Inr out" and "r \<in> set out"
  shows "r \<in> set acc \<or>
         (\<exists>e \<in> set es. \<exists>ty i. e_type e = Some ty \<and> e_id e = Some i \<and>
            is_relevant lower (tags_of e) \<and> r = make_supplier ty i (tags_of e) e)"
  using assms
proof (induction es arbitrary: seen acc)
  case Nil
  then show ?case by simp
next
  case (Cons e es)
  from Cons.prems(1) obtain ty i where ti: "e_type e = Some ty" "e_id e = Some i"
    by (auto split: option.splits)
  show ?case
  proof (cases "element_id ty i \<in> seen")
    case True
    then have "process_elements lower seen acc es = Inr out"
      using Cons.prems(1) ti by simp
    from Cons.IH [OF this Cons.prems(2)] show ?thesis by auto
  next
    case False
    show ?thesis
    proof (cases "is_relevant lower (tags_of e)")
      case True
      have "process_elements lower (insert (element_id ty i) seen)
              (acc @ [make_supplier ty i (tags_of e) e]) es = Inr out"
        using Cons.prems(1) ti False True by (simp add: Let_def)
      from Cons.IH [OF this Cons.prems(2)] show ?thesis
        using ti True by auto
    next
      case irrelevant: False
      have "process_elements lower (insert (element_id ty i) seen) acc es = Inr out"
        using Cons.prems(1) ti False irrelevant by (simp add: Let_def)
      from Cons.IH [OF this Cons.prems(2)] show ?thesis by auto
    qed
  qed
qed

lemma no_tags_record:
  "e_tags e = None \<Longrightarrow> make_supplier ty i (tags_of e) e = default_record ty i e"
  by (simp add: make_supplier_def default_record_def tags_of_def dict_get_def strip_def
        isspace_def u_def split: prod.splits)

text \<open>
  C8. When every element has its \<open>type\<close> and \<open>id\<close>, the classifier returns a list of
  records, each built from one of the elements, and raises nothing, whatever else the
  elements lack. An element without tags, a missing tag, missing coordinates or a
  missing center give the record the default of the field: N/A, Bucuresti, the empty
  string, null.
\<close>

theorem C8_total:
  "((\<forall>e \<in> set es. e_type e \<noteq> None \<and> e_id e \<noteq> None) \<longrightarrow>
      (\<exists>out. filter_and_process_data lower (Some \<lparr>elements = Some es\<rparr>) = Inr out \<and>
         (\<forall>r \<in> set out. \<exists>e \<in> set es. \<exists>ty i. e_type e = Some ty \<and> e_id e = Some i \<and>
            r = make_supplier ty i (tags_of e) e))) \<and>
   (e_tags e = None \<longrightarrow> make_supplier ty i (tags_of e) e = default_record ty i e) \<and>
   (tags (u ''name'') = None \<longrightarrow> s_name (make_supplier ty i tags e) = u ''N/A'') \<and>
   (tags (u ''addr:street'') = None \<and> tags (u ''addr:housenumber'') = None \<longrightarrow>
      s_address (make_supplier ty i tags e) = []) \<and>
   (tags (u ''addr:city'') = None \<longrightarrow>
      s_city (make_supplier ty i tags e) = u ''Bucure'' @ [537] @ u ''ti'') \<and>
   (tags (u ''addr:postcode'') = None \<longrightarrow> s_postcode (make_supplier ty i tags e) = []) \<and>
   (tags (u ''shop'') = None \<longrightarrow> s_shop (make_supplier ty i tags e) = []) \<and>
   (tags (u ''craft'') = None \<longrightarrow> s_craft (make_supplier ty i tags e) = []) \<and>
   (tags (u ''description'') = None \<longrightarrow> s_description (make_supplier ty i tags e) = []) \<and>
   (tags (u ''phone'') = None \<longrightarrow> s_phone (make_supplier ty i tags e) = []) \<and>
   (tags (u ''website'') = None \<longrightarrow> s_website (make_supplier ty i tags e) = []) \<and>
   (e_lat e = None \<and> e_lon e = None \<and> e_center e = None \<longrightarrow>
      s_latitude (make_supplier ty i tags e) = None \<and>
      s_longitude (make_supplier ty i tags e) = None)"
proof -
  have total: "(\<forall>e \<in> set es. e_type e \<noteq> None \<and> e_id e \<noteq> None) \<longrightarrow>
      (\<exists>out. filter_and_process_data lower (Some \<lparr>elements = Some es\<rparr>) = Inr out \<and>
         (\<forall>r \<in> set out. \<exists>e \<in> set es. \<exists>ty i. e_type e = Some ty \<and> e_id e = Some i \<and>
            r = make_supplier ty i (tags_of e) e))"
  proof
    assume "\<forall>e \<in> set es. e_type e \<noteq> None \<and> e_id e \<noteq> None"
    then obtain out where out: "process_elements lower {} [] es = Inr out"
      using process_total by blast
    have "\<forall>r \<in> set out. \<exists>e \<in> set es. \<exists>ty i. e_type e = Some ty \<and> e_id e = Some i \<and>
            r = make_supplier ty i (tags_of e) e"
      using process_sound [OF out] by fastforce
    with out show "\<exists>out. filter_and_process_data lower (Some \<lparr>elements = Some es\<rparr>) = Inr out \<and>
         (\<forall>r \<in> set out. \<exists>e \<in> set es. \<exists>ty i. e_type e = Some ty \<and> e_id e = Some i \<and>
            r = make_supplier ty i (tags_of e) e)"
      by (simp add: filter_and_process_data_def)
  qed
  have notags: "e_tags e = None \<longrightarrow> make_supplier ty i (tags_of e) e = default_record ty i e"
    by (simp add: no_tags_record)
  have address: "tags (u ''addr:street'') = None \<and> tags (u ''addr:housenumber'') = None \<longrightarrow>
      s_address (make_supplier ty i tags e) = []"
    by (simp add: supplier_fields dict_get_def strip_def isspace_def u_def)
  have coords: "e_lat e = None \<and> e_lon e = None \<and> e_center e = None \<longrightarrow>
      s_latitude (make_supplier ty i tags e) = None \<and>
      s_longitude (make_supplier ty i tags e) = None"
    by (simp add: supplier_lat_lon coordinates_def)
  show ?thesis
    using total notags address coords
    by (simp add: supplier_fields(1,3-9) dict_get_def)
qed



theorem C8_total_witness:
  "e_type bare_way = Some (u ''way'') \<and> e_id bare_way = Some 1 \<and>
   e_type node_42 = Some (u ''node'') \<and> e_id node_42 = Some 42 \<and>
   e_tags bare_way = None \<and> tags_of bare_way (u ''name'') = None \<and>
   (\<exists>out. filter_and_process_data lower_ro (Some \<lparr>elements = Some [bare_way, node_42]\<rparr>) = Inr out) \<and>
   make_supplier (u ''way'') 1 (tags_of bare_way) bare_way = default_record (u ''way'') 1 bare_way \<and>
   s_name (make_supplier (u ''way'') 1 (tags_of bare_way) bare_way) = u ''N/A''"
proof -
  have h1: "\<forall>e \<in> set [bare_way, node_42]. e_type e \<noteq> None \<and> e_id e \<noteq> None"
    by (simp add: bare_way_def node_42_def)
  have h2: "e_tags bare_way = None"
    by (simp add: bare_way_def)
  have h3: "tags_of bare_way (u ''name'') = None"
    by (simp add: bare_way_def tags_of_def)
  note c = C8_total [where es = "[bare_way, node_42]" and lower = lower_ro and e = bare_way
        and ty = "u ''way''" and i = 1 and tags = "tags_of bare_way"]
  have t: "\<exists>out. filter_and_process_data lower_ro (Some \<lparr>elements = Some [bare_way, node_42]\<rparr>) = Inr out"
    using mp [OF c [THEN conjunct1] h1] by blast
  have d: "make_supplier (u ''way'') 1 (tags_of bare_way) bare_way = default_record (u ''way'') 1 bare_way"
    by (rule mp [OF c [THEN conjunct2, THEN conjunct1] h2])
  have n: "s_name (make_supplier (u ''way'') 1 (tags_of bare_way) bare_way) = u ''N/A''"
    by (rule mp [OF c [THEN conjunct2, THEN conjunct2, THEN conjunct1] h3])
  have ids: "e_type bare_way = Some (u ''way'')" "e_id bare_way = Some 1"
    "e_type node_42 = Some (u ''node'')" "e_id node_42 = Some 42"
    by (simp_all add: bare_way_def node_42_def)
  from ids h2 h3 t d n show ?thesis by (intro conjI)
qed

section \<open>Writing the file\<close>

lemma print_files [simp]: "files (print w s) = files w"
  by (simp add: print_def)

lemma print_console [simp]: "console (print w s) = console w @ [s]"
  by (simp add: print_def)

lemma dict_row: "dict_to_list csv_fieldnames (supplier_items s) = Inr (csv_row s)"
  by (simp add: dict_to_list_def csv_fieldnames_def supplier_items_def csv_row_def dict_get_def
        coordinate_cell_def u_def)

lemma writerows_rows: "writerows csv_fieldnames suppliers = Inr (map csv_row suppliers)"
  by (induction suppliers) (simp_all add: dict_row)

lemma save_nonempty:
  assumes "suppliers \<noteq> []"
  shows "save_to_csv w suppliers fn =
     Inr (print (w\<lparr>files := (files w)
                  ((case fn of None \<Rightarrow> u ''bucharest_shoe_suppliers.csv'' | Some f \<Rightarrow> f) \<mapsto>
                   map CStr csv_fieldnames # map csv_row suppliers)\<rparr>)
            ([10003] @ u '' Data for '' @ str_int (int (length suppliers)) @
             u '' locations saved to '' @ [39] @
             (case fn of None \<Rightarrow> u ''bucharest_shoe_suppliers.csv'' | Some f \<Rightarrow> f) @ [39] @ u ''.''))"
proof -
  have "writerows [u ''id'', u ''type'', u ''name'', u ''address'', u ''city'', u ''postcode'',
          u ''shop'', u ''craft'', u ''description'', u ''phone'', u ''website'',
          u ''latitude'', u ''longitude''] suppliers = Inr (map csv_row suppliers)"
    using writerows_rows [of suppliers] by (simp only: csv_fieldnames_def)
  then show ?thesis
    using assms by (simp only: save_to_csv_def Let_def csv_fieldnames_def if_False sum.case)
qed

text \<open>
  C7. Given no records, \<open>save_to_csv\<close> prints "No data to save." and leaves every file
  as it was, whatever the file name; a call that changes the files had at least one record.
\<close>

theorem C7_empty_writes_nothing:
  "save_to_csv w [] fn = Inr (w\<lparr>console := console w @ [u ''No data to save.'']\<rparr>) \<and>
   (\<forall>w'. save_to_csv w suppliers fn = Inr w' \<and> files w' \<noteq> files w \<longrightarrow> suppliers \<noteq> [])"
  by (auto simp add: save_to_csv_def print_def Let_def)

text \<open>
  C9. Given at least one record, \<open>save_to_csv\<close> returns normally and the file then holds
  the header of thirteen names id, type, name, address, city, postcode, shop, craft,
  description, phone, website, latitude, longitude, followed by one row per record in
  the order of the list. The file is \<open>bucharest_shoe_suppliers.csv\<close> unless the caller
  names another.
\<close>

theorem C9_header_and_rows:
  "suppliers \<noteq> [] \<longrightarrow>
     (\<exists>w'. save_to_csv w suppliers fn = Inr w' \<and>
        files w' = (files w)
          ((case fn of None \<Rightarrow> u ''bucharest_shoe_suppliers.csv'' | Some f \<Rightarrow> f) \<mapsto>
           map CStr csv_fieldnames # map csv_row suppliers)) \<and>
     length csv_fieldnames = 13"
proof
  assume "suppliers \<noteq> []"
  from save_nonempty [OF this, of w fn]
  have "\<exists>w'. save_to_csv w suppliers fn = Inr w' \<and>
        files w' = (files w)
          ((case fn of None \<Rightarrow> u ''bucharest_shoe_suppliers.csv'' | Some f \<Rightarrow> f) \<mapsto>
           map CStr csv_fieldnames # map csv_row suppliers)"
    by simp
  moreover have "length csv_fieldnames = 13"
    by (simp add: csv_fieldnames_def)
  ultimately show "(\<exists>w'. save_to_csv w suppliers fn = Inr w' \<and>
        files w' = (files w)
          ((case fn of None \<Rightarrow> u ''bucharest_shoe_suppliers.csv'' | Some f \<Rightarrow> f) \<mapsto>
           map CStr csv_fieldnames # map csv_row suppliers)) \<and>
     length csv_fieldnames = 13"
    by simp
qed


theorem C7_empty_writes_nothing_witness:
  "\<exists>w'. save_to_csv empty_world [record_42] None = Inr w' \<and> files w' \<noteq> files empty_world \<and>
        [record_42] \<noteq> [] \<and>
        save_to_csv empty_world [] None =
          Inr (empty_world\<lparr>console := console empty_world @ [u ''No data to save.'']\<rparr>)"
proof -
  obtain w' where w': "save_to_csv empty_world [record_42] None = Inr w'"
    and f: "files w' = (files empty_world)
          (u ''bucharest_shoe_suppliers.csv'' \<mapsto> map CStr csv_fieldnames # map csv_row [record_42])"
    using save_nonempty [of "[record_42]" empty_world None] by simp
  have "files w' (u ''bucharest_shoe_suppliers.csv'') \<noteq> files empty_world (u ''bucharest_shoe_suppliers.csv'')"
    unfolding f by (simp add: empty_world_def)
  then have d: "files w' \<noteq> files empty_world"
    by metis
  note c = C7_empty_writes_nothing [where w = empty_world and suppliers = "[record_42]" and fn = None]
  have "[record_42] \<noteq> []"
    using c [THEN conjunct2, rule_format, of w'] w' d by blast
  with w' d c [THEN conjunct1] show ?thesis by blast
qed

theorem C9_header_and_rows_witness:
  "[record_42] \<noteq> [] \<and>
   (\<exists>w'. save_to_csv empty_world [record_42] (Some (u ''out.csv'')) = Inr w' \<and>
      files w' (u ''out.csv'') =
        Some [map CStr [u ''id'', u ''type'', u ''name'', u ''address'', u ''city'', u ''postcode'',
                u ''shop'', u ''craft'', u ''description'', u ''phone'', u ''website'',
                u ''latitude'', u ''longitude''],
              [CInt 42, CStr (u ''node''), CStr (u ''Depozit Piele SRL''), CStr [],
               CStr (u ''Bucure'' @ [537] @ u ''ti''), CStr [], CStr (u ''wholesale''), CStr [],
               CStr [], CStr [], CStr [], CFloat 44.43, CFloat 26.10]])"
proof -
  have n: "[record_42] \<noteq> []" by simp
  have r: "csv_row record_42 =
      [CInt 42, CStr (u ''node''), CStr (u ''Depozit Piele SRL''), CStr [],
       CStr (u ''Bucure'' @ [537] @ u ''ti''), CStr [], CStr (u ''wholesale''), CStr [],
       CStr [], CStr [], CStr [], CFloat 44.43, CFloat 26.10]"
    by (simp add: csv_row_def record_42_def)
  from mp [OF C9_header_and_rows [where suppliers = "[record_42]" and w = empty_world
        and fn = "Some (u ''out.csv'')"] n]
  obtain w' where "save_to_csv empty_world [record_42] (Some (u ''out.csv'')) = Inr w'"
    and "files w' = (files empty_world)
          (u ''out.csv'' \<mapsto> map CStr csv_fieldnames # map csv_row [record_42])"
    by auto
  then show ?thesis
    using n r by (simp add: csv_fieldnames_def)
qed

section \<open>A failed fetch\<close>

lemma fetch_files: "files (snd (fetch_osm_suppliers post w)) = files w"
  by (simp add: fetch_osm_suppliers_def Let_def split: sum.splits option.splits)

lemma fetch_console: "\<exists>printed. console (snd (fetch_osm_suppliers post w)) = console w @ printed"
  by (simp add: fetch_osm_suppliers_def Let_def split: sum.splits option.splits)

lemma fetch_result: "fst (fetch_osm_suppliers post w) = fst (fetch_osm_suppliers post w')"
  by (simp add: fetch_osm_suppliers_def Let_def split: sum.splits option.splits)

lemma banner_world:
  "files (banner w) = files w"
  "console (banner w) = console w @
     [replicate 60 61, u ''Searching for shoe material suppliers in Bucharest'',
      u ''Source: OpenStreetMap (OSM) Database'', replicate 60 61]"
  by (simp_all add: banner_def)

lemma main_no_suppliers:
  assumes "filter_and_process_data lower (fst (fetch_osm_suppliers post w)) = Inr []"
  shows "main lower post w = Inr (display_results (snd (fetch_osm_suppliers post (banner w))) [])"
proof -
  have "filter_and_process_data lower (fst (fetch_osm_suppliers post (banner w))) = Inr []"
    using assms fetch_result [of post "banner w" w] by simp
  then show ?thesis
    by (simp add: main_def Let_def banner_def split_beta)
qed

text \<open>
  C6. Each of the three failures of the request (the post raises, the status check
  raises, the body does not parse) makes the fetcher return \<open>None\<close>; for the first
  the two lines it prints are shown too. The classifier answers \<open>None\<close>, and a payload without \<open>elements\<close>, with the
  empty list. \<open>main\<close> then runs to its end: it returns normally, touches no file, and
  its last two lines are the notice that nothing was found.
\<close>

theorem C6_fetch_failure:
  "fetch_osm_suppliers (Inl msg) w =
     (None, print (print w (u ''Querying OpenStreetMap for suppliers in Bucharest...''))
              (u ''Error fetching data: '' @ msg)) \<and>
   (raise_for_status r = Some msg \<longrightarrow> fst (fetch_osm_suppliers (Inr r) w) = None) \<and>
   (raise_for_status r = None \<and> json r = Inl msg \<longrightarrow> fst (fetch_osm_suppliers (Inr r) w) = None) \<and>
   filter_and_process_data lower None = Inr [] \<and>
   filter_and_process_data lower (Some \<lparr>elements = None\<rparr>) = Inr [] \<and>
   (fst (fetch_osm_suppliers post w) = None \<or>
    fst (fetch_osm_suppliers post w) = Some \<lparr>elements = None\<rparr> \<longrightarrow>
      (\<exists>w'. main lower post w = Inr w' \<and> files w' = files w \<and>
         (\<exists>printed. console w' = console w @ printed @
            [[10] @ u ''No potential suppliers found with the current query.'',
             u ''Try broadening the search or checking other sources.''])))"
proof (intro conjI impI)
  show "fetch_osm_suppliers (Inl msg) w =
     (None, print (print w (u ''Querying OpenStreetMap for suppliers in Bucharest...''))
              (u ''Error fetching data: '' @ msg))"
    by (simp add: fetch_osm_suppliers_def Let_def)
next
  assume "raise_for_status r = Some msg"
  then show "fst (fetch_osm_suppliers (Inr r) w) = None"
    by (simp add: fetch_osm_suppliers_def Let_def)
next
  assume "raise_for_status r = None \<and> json r = Inl msg"
  then show "fst (fetch_osm_suppliers (Inr r) w) = None"
    by (simp add: fetch_osm_suppliers_def Let_def)
next
  show "filter_and_process_data lower None = Inr []"
    by (simp add: filter_and_process_data_def)
next
  show "filter_and_process_data lower (Some \<lparr>elements = None\<rparr>) = Inr []"
    by (simp add: filter_and_process_data_def)
next
  assume "fst (fetch_osm_suppliers post w) = None \<or>
    fst (fetch_osm_suppliers post w) = Some \<lparr>elements = None\<rparr>"
  then have "filter_and_process_data lower (fst (fetch_osm_suppliers post w)) = Inr []"
    by (auto simp add: filter_and_process_data_def)
  then have m: "main lower post w = Inr (display_results (snd (fetch_osm_suppliers post (banner w))) [])"
    by (rule main_no_suppliers)
  let ?w = "display_results (snd (fetch_osm_suppliers post (banner w))) []"
  obtain p where p: "console (snd (fetch_osm_suppliers post (banner w))) = console (banner w) @ p"
    using fetch_console by blast
  have f: "files ?w = files w"
    by (simp add: display_results_def fetch_files banner_world)
  have c: "console ?w = console w @
      ([replicate 60 61, u ''Searching for shoe material suppliers in Bucharest'',
        u ''Source: OpenStreetMap (OSM) Database'', replicate 60 61] @ p) @
      [[10] @ u ''No potential suppliers found with the current query.'',
       u ''Try broadening the search or checking other sources.'']"
    by (simp add: display_results_def p banner_world)
  from m f c show "\<exists>w'. main lower post w = Inr w' \<and> files w' = files w \<and>
         (\<exists>printed. console w' = console w @ printed @
            [[10] @ u ''No potential suppliers found with the current query.'',
             u ''Try broadening the search or checking other sources.''])"
    by blast
qed

theorem C6_fetch_failure_witness:
  "fst (fetch_osm_suppliers (Inl (u ''timed out'')) empty_world) = None \<and>
   (\<exists>w'. main lower_ro (Inl (u ''timed out'')) empty_world = Inr w' \<and>
      files w' = files empty_world)"
proof -
  note c = C6_fetch_failure [where msg = "u ''timed out''" and w = empty_world
      and post = "Inl (u ''timed out'')" and lower = lower_ro]
  have h: "fst (fetch_osm_suppliers (Inl (u ''timed out'')) empty_world) = None"
    using c [THEN conjunct1] by simp
  have "\<exists>w'. main lower_ro (Inl (u ''timed out'')) empty_world = Inr w' \<and>
      files w' = files empty_world \<and>
         (\<exists>printed. console w' = console empty_world @ printed @
            [[10] @ u ''No potential suppliers found with the current query.'',
             u ''Try broadening the search or checking other sources.''])"
    by (rule mp [OF c [THEN conjunct2, THEN conjunct2, THEN conjunct2, THEN conjunct2,
            THEN conjunct2] disjI1 [OF h]])
  with h show ?thesis by blast
qed

end
